theory Spec2Isabelle
  imports Complex_Main "HOL-Library.Sublist"
begin

section \<open>Seamstress production planner: the Task Table page of app.py\<close>

text \<open>
  The program is a Streamlit script: every interaction re-runs it from the top. The model
  is one run of the branch \<^verbatim>\<open>menu == "Task Table"\<close> (lines 27 to 114) as a function of
  the remote worksheet, the widget values of that run and the answers of the remote calls,
  returning the worksheet afterwards and how the run ended.

  The libraries the script calls (gspread, pandas, st_aggrid) are outside the repository.
  They are modelled by their documented behaviour on an idealised sheet: a header row of
  names followed by data rows, whose cells hold what was written and are read back as
  \<^verbatim>\<open>get_all_records\<close> reads them, numeric-looking text as a number.
\<close>

subsection \<open>Values\<close>

text \<open>
  A cell holds what Python puts into a row: a string, an int (quantity), a float (cost;
  the script stores it and never computes with it, so it is the number it denotes, or an
  infinity or nan), or, after \<^verbatim>\<open>pd.to_datetime\<close>, a timestamp or NaT.
\<close>

datatype cell = Str string | Num int | Flt rat | Infty bool | NaN | Timestamp int | NaT

type_synonym row = "cell list"

text \<open>A \<^verbatim>\<open>datetime.date\<close>; Python keeps 1 <= year <= 9999.\<close>

record date =
  year :: nat
  month :: nat
  day :: nat

datatype error =
    RemoteError
  | GSpreadException
  | MissingColumns "string list"
  | KeyError
  | AmbiguousLabel
  | IndexError
  | Unmodelled

subsection \<open>Strings: strip, title, strftime\<close>

text \<open>
  Characters are bytes; the model covers ASCII names. A byte above 127 is treated as
  neither a space nor a letter.
\<close>

definition is_space :: "char \<Rightarrow> bool" where
  "is_space c = (let n = (of_char c :: nat) in (9 \<le> n \<and> n \<le> 13) \<or> (28 \<le> n \<and> n \<le> 32))"

definition is_upper :: "char \<Rightarrow> bool" where
  "is_upper c = (let n = (of_char c :: nat) in 65 \<le> n \<and> n \<le> 90)"

definition is_lower :: "char \<Rightarrow> bool" where
  "is_lower c = (let n = (of_char c :: nat) in 97 \<le> n \<and> n \<le> 122)"

definition to_upper :: "char \<Rightarrow> char" where
  "to_upper c = (if is_lower c then char_of ((of_char c :: nat) - 32) else c)"

definition to_lower :: "char \<Rightarrow> char" where
  "to_lower c = (if is_upper c then char_of ((of_char c :: nat) + 32) else c)"

text \<open>\<^verbatim>\<open>str.strip()\<close>: leading and trailing whitespace removed.\<close>

definition strip :: "string \<Rightarrow> string" where
  "strip s = rev (dropWhile is_space (rev (dropWhile is_space s)))"

text \<open>
  \<^verbatim>\<open>str.title()\<close>: a letter that follows a cased letter is lowered, any other letter is
  raised; the flag is whether the previous character was cased.
\<close>

fun title_from :: "bool \<Rightarrow> string \<Rightarrow> string" where
  "title_from prev [] = []"
| "title_from prev (c # cs) =
     (if is_upper c \<or> is_lower c
      then (if prev then to_lower c else to_upper c) # title_from True cs
      else c # title_from False cs)"

definition title :: "string \<Rightarrow> string" where
  "title s = title_from False s"

definition digit_char :: "nat \<Rightarrow> char" where
  "digit_char n = char_of (48 + n mod 10)"

definition dec2 :: "nat \<Rightarrow> string" where
  "dec2 n = [digit_char (n div 10), digit_char n]"

definition dec4 :: "nat \<Rightarrow> string" where
  "dec4 n = [digit_char (n div 1000), digit_char (n div 100), digit_char (n div 10), digit_char n]"

text \<open>\<^verbatim>\<open>strftime("%Y-%m-%d")\<close> and \<^verbatim>\<open>str(date)\<close>.\<close>

definition strftime_ymd :: "date \<Rightarrow> string" where
  "strftime_ymd d = dec4 (year d) @ ''-'' @ dec2 (month d) @ ''-'' @ dec2 (day d)"

definition is_digit :: "char \<Rightarrow> bool" where
  "is_digit c = (let n = (of_char c :: nat) in 48 \<le> n \<and> n \<le> 57)"

text \<open>The shape YYYY-MM-DD.\<close>

definition ymd_format :: "string \<Rightarrow> bool" where
  "ymd_format s =
     (length s = 10 \<and> s ! 4 = CHR ''-'' \<and> s ! 7 = CHR ''-'' \<and>
      list_all is_digit (take 4 s @ take 2 (drop 5 s) @ drop 8 s))"

subsection \<open>Numbers in text: gspread's numericise\<close>

definition digits_val :: "string \<Rightarrow> nat" where
  "digits_val ds = foldl (\<lambda>n c. 10 * n + ((of_char c :: nat) - 48)) 0 ds"

definition all_digits :: "string \<Rightarrow> bool" where
  "all_digits ds = (ds \<noteq> [] \<and> list_all is_digit ds)"

text \<open>An optional sign in front: whether it is a minus, and what follows it.\<close>

definition split_sign :: "string \<Rightarrow> bool \<times> string" where
  "split_sign s =
     (case s of
        [] \<Rightarrow> (False, [])
      | c # cs \<Rightarrow>
          if c = CHR ''-'' then (True, cs) else if c = CHR ''+'' then (False, cs) else (False, s))"

text \<open>\<^verbatim>\<open>int(s)\<close> on a string without underscore: blanks around, a sign, decimal digits.\<close>

definition py_int :: "string \<Rightarrow> int option" where
  "py_int s =
     (case split_sign (strip s) of
        (neg, ds) \<Rightarrow>
          if all_digits ds
          then Some (if neg then - int (digits_val ds) else int (digits_val ds))
          else None)"

text \<open>The mantissa of a float literal: digits with at most one point, a digit on a side.\<close>

definition py_number :: "string \<Rightarrow> rat option" where
  "py_number m =
     (let a = takeWhile (\<lambda>c. c \<noteq> CHR ''.'') m;
          r = dropWhile (\<lambda>c. c \<noteq> CHR ''.'') m
      in case r of
           [] \<Rightarrow> if all_digits a then Some (of_nat (digits_val a)) else None
         | _ # b \<Rightarrow>
             if (a = [] \<or> all_digits a) \<and> (b = [] \<or> all_digits b) \<and> \<not> (a = [] \<and> b = [])
             then Some (of_nat (digits_val a) + of_nat (digits_val b) / 10 ^ length b)
             else None)"

definition pow10 :: "int \<Rightarrow> rat" where
  "pow10 k = (if 0 \<le> k then 10 ^ nat k else 1 / 10 ^ nat (- k))"

text \<open>
  \<^verbatim>\<open>float(s)\<close> on a string without underscore: blanks around, a sign, then nan, inf or
  infinity in any case, or a mantissa with an optional exponent. The result is the number
  the literal denotes; rounding to a double is not modelled.
\<close>

definition py_float :: "string \<Rightarrow> cell option" where
  "py_float s =
     (case split_sign (strip s) of
        (neg, t) \<Rightarrow>
          if map to_lower t = ''nan'' then Some NaN
          else if map to_lower t = ''inf'' \<or> map to_lower t = ''infinity'' then Some (Infty neg)
          else
            (let m = takeWhile (\<lambda>c. c \<noteq> CHR ''e'' \<and> c \<noteq> CHR ''E'') t;
                 x = dropWhile (\<lambda>c. c \<noteq> CHR ''e'' \<and> c \<noteq> CHR ''E'') t
             in case py_number m of
                  None \<Rightarrow> None
                | Some q \<Rightarrow>
                    (case x of
                       [] \<Rightarrow> Some (Flt (if neg then - q else q))
                     | _ # ex \<Rightarrow>
                         (case split_sign ex of
                            (eneg, ds) \<Rightarrow>
                              if all_digits ds
                              then Some (Flt ((if neg then - q else q) *
                                     pow10 (if eneg then - int (digits_val ds)
                                            else int (digits_val ds))))
                              else None))))"

text \<open>
  \<^verbatim>\<open>numericise(value)\<close> with the defaults \<^verbatim>\<open>get_all_records()\<close> passes: a string with an
  underscore stays; otherwise int, then float, are tried; what neither parses stays.
\<close>

definition numericise :: "string \<Rightarrow> cell" where
  "numericise v =
     (if CHR ''_'' \<in> set v then Str v
      else case py_int v of
             Some n \<Rightarrow> Num n
           | None \<Rightarrow> (case py_float v of Some c \<Rightarrow> c | None \<Rightarrow> Str v))"

text \<open>
  What a stored cell reads back as. Text is numericised. A number is shown by the sheet
  and parsed again: an int comes back as it is, a float with a whole value comes back as
  an int (0.0 is shown as 0), any other float as written. The remaining cells are not
  values the add form writes; they are kept as they are.
\<close>

fun readback :: "cell \<Rightarrow> cell" where
  "readback (Str s) = numericise s"
| "readback (Num n) = Num n"
| "readback (Flt q) = (if of_int \<lfloor>q\<rfloor> = q then Num \<lfloor>q\<rfloor> else Flt q)"
| "readback c = c"

subsection \<open>The remote worksheet (gspread)\<close>

text \<open>
  Physical row 1 is the header; physical row \<open>k + 2\<close> is \<open>rows ws ! k\<close>.
\<close>

record worksheet =
  header :: "string list"
  rows :: "row list"

text \<open>
  \<^verbatim>\<open>get_all_values\<close> pads every row with blanks to the width of the widest row.
\<close>

definition fill_gaps :: "nat \<Rightarrow> row \<Rightarrow> row" where
  "fill_gaps w r = r @ replicate (w - length r) (Str [])"

definition sheet_width :: "worksheet \<Rightarrow> nat" where
  "sheet_width ws = fold max (map length (rows ws)) (length (header ws))"

text \<open>
  \<^verbatim>\<open>get_all_records()\<close>: the first row gives the keys, which must be unique; every
  further row, its values numericised, becomes one dict, here an association list in key
  order.
\<close>

definition get_all_records :: "worksheet \<Rightarrow> error + (string \<times> cell) list list" where
  "get_all_records ws =
     (let w = sheet_width ws;
          keys = header ws @ replicate (w - length (header ws)) []
      in if \<not> distinct keys then Inl GSpreadException
         else Inr (map (\<lambda>r. zip keys (map readback (fill_gaps w r))) (rows ws)))"

text \<open>
  The three writes. Each is one remote call, which either succeeds (\<open>ok\<close>) or raises.
  The script passes row numbers of data rows only (line 101 adds 2 to an index), so a
  write to row 0 or to the header row is not modelled.
\<close>

definition append_row :: "bool \<Rightarrow> worksheet \<Rightarrow> row \<Rightarrow> error + worksheet" where
  "append_row ok ws r =
     (if \<not> ok then Inl RemoteError else Inr (ws\<lparr>rows := rows ws @ [r]\<rparr>))"

definition delete_row :: "bool \<Rightarrow> worksheet \<Rightarrow> nat \<Rightarrow> error + worksheet" where
  "delete_row ok ws n =
     (if \<not> ok then Inl RemoteError
      else if n < 2 then Inl Unmodelled
      else Inr (ws\<lparr>rows := take (n - 2) (rows ws) @ drop (n - 1) (rows ws)\<rparr>))"

definition insert_row :: "bool \<Rightarrow> worksheet \<Rightarrow> row \<Rightarrow> nat \<Rightarrow> error + worksheet" where
  "insert_row ok ws r n =
     (if \<not> ok then Inl RemoteError
      else if n < 2 then Inl Unmodelled
      else Inr (ws\<lparr>rows := take (n - 2) (rows ws) @ replicate (n - 2 - length (rows ws)) []
                              @ [r] @ drop (n - 2) (rows ws)\<rparr>))"

subsection \<open>The data frame (pandas)\<close>

record dataframe =
  columns :: "string list"
  data :: "row list"

text \<open>
  \<^verbatim>\<open>pd.DataFrame(records)\<close>: the columns are the keys of the records; no record, no
  column. (On such a frame line 30 yields no name, as pandas 1 does; pandas 2 gives the
  empty frame a range index, on which line 30 itself raises. Either way the run ends
  before line 40.)
\<close>

definition DataFrame :: "(string \<times> cell) list list \<Rightarrow> dataframe" where
  "DataFrame recs =
     \<lparr>columns = (case recs of [] \<Rightarrow> [] | r # _ \<Rightarrow> map fst r), data = map (map snd) recs\<rparr>"

text \<open>
  \<^verbatim>\<open>df[name]\<close> as a column: KeyError when no column has the label; with a repeated label
  pandas yields a frame, and each use the script makes of it raises.
\<close>

definition col_index :: "dataframe \<Rightarrow> string \<Rightarrow> error + nat" where
  "col_index df name =
     (if name \<notin> set (columns df) then Inl KeyError
      else if count_list (columns df) name \<noteq> 1 then Inl AmbiguousLabel
      else Inr (length (takeWhile (\<lambda>c. c \<noteq> name) (columns df))))"

subsection \<open>One run of the Task Table page\<close>

text \<open>What the run reads from its surroundings: the clock and the date parser.\<close>

record env =
  today :: date
  to_datetime :: "cell \<Rightarrow> cell"

text \<open>Whether each remote call of the run succeeds.\<close>

record remote =
  read_ok :: bool
  append_ok :: bool
  delete_ok :: bool
  insert_ok :: bool

text \<open>The widgets of the add form (lines 46 to 58).\<close>

record task_form =
  task :: string
  category :: string
  qty :: int
  seamstress :: string
  status :: string
  priority :: string
  cost :: rat
  exp_file :: string
  del_file :: string
  due :: date


text \<open>
  What AgGrid returns: the grid's rows (\<^verbatim>\<open>grid_response["data"]\<close>) and the selected rows,
  of which the script reads the node index and the task name.
\<close>

record selected =
  nodeRowIndex :: nat
  sel_task_name :: cell

record grid_response =
  updated_df :: "row list"
  selected_rows :: "selected list"

record ui =
  add_task_form :: "task_form option"
  filter1 :: "cell list"
  filter2 :: "cell list"
  grid :: grid_response
  update_clicked :: bool
  delete_clicked :: bool

text \<open>How a run ends without an error: a rerun after a write, or the rendered table.\<close>

datatype outcome = Rerun string | Rendered dataframe

definition required_columns :: "string list" where
  "required_columns =
     [''Task Name'', ''Category'', ''Quantity'', ''Seamstress'', ''Status'', ''Priority'',
      ''Cost'', ''Expected File Upload'', ''Delivered File Upload'', ''Timeline'',
      ''Last Updated'']"

definition missing_cols :: "dataframe \<Rightarrow> string list" where
  "missing_cols df = [col \<leftarrow> required_columns. col \<notin> set (columns df)]"

text \<open>Lines 29 to 40.\<close>

definition load :: "env \<Rightarrow> remote \<Rightarrow> worksheet \<Rightarrow> error + dataframe" where
  "load e rem ws =
     (if \<not> read_ok rem then Inl RemoteError
      else case get_all_records ws of
        Inl err \<Rightarrow> Inl err
      | Inr recs \<Rightarrow>
          (let df0 = DataFrame recs;
               df = df0\<lparr>columns := map (title \<circ> strip) (columns df0)\<rparr>
           in if missing_cols df \<noteq> [] then Inl (MissingColumns (missing_cols df))
              else case col_index df ''Last Updated'' of
                Inl err \<Rightarrow> Inl err
              | Inr j \<Rightarrow> Inr (df\<lparr>data := map (\<lambda>r. r[j := to_datetime e (r ! j)]) (data df)\<rparr>)))"

text \<open>Lines 61 to 64: the row the add form appends.\<close>

definition form_row :: "env \<Rightarrow> task_form \<Rightarrow> row" where
  "form_row e f =
     [Str (task f), Str (category f), Num (qty f), Str (seamstress f), Str (status f),
      Str (priority f), Flt (cost f), Str (exp_file f), Str (del_file f),
      Str (strftime_ymd (due f)), Str (strftime_ymd (today e))]"

definition add_task :: "env \<Rightarrow> remote \<Rightarrow> task_form \<Rightarrow> worksheet \<Rightarrow> worksheet \<times> (error + outcome)" where
  "add_task e rem f ws =
     (case append_row (append_ok rem) ws (form_row e f) of
        Inl err \<Rightarrow> (ws, Inl err)
      | Inr ws' \<Rightarrow> (ws', Inr (Rerun ''Task added.'')))"

text \<open>Lines 72 to 76.\<close>

definition filtered_df :: "dataframe \<Rightarrow> nat \<Rightarrow> nat \<Rightarrow> cell list \<Rightarrow> cell list \<Rightarrow> dataframe" where
  "filtered_df df st ct f1 f2 =
     (let d0 = df;
          d1 = (if f1 \<noteq> [] then d0\<lparr>data := [r \<leftarrow> data d0. r ! st \<in> set f1]\<rparr> else d0);
          d2 = (if f2 \<noteq> [] then d1\<lparr>data := [r \<leftarrow> data d1. r ! ct \<in> set f2]\<rparr> else d1)
      in d2)"

text \<open>Line 101: \<^verbatim>\<open>df.index[df["Task Name"] == name][0] + 2\<close>.\<close>

definition row_number :: "dataframe \<Rightarrow> cell \<Rightarrow> error + nat" where
  "row_number df name =
     (case col_index df ''Task Name'' of
        Inl err \<Rightarrow> Inl err
      | Inr j \<Rightarrow>
          (case [i \<leftarrow> [0..<length (data df)]. data df ! i ! j = name] of
             [] \<Rightarrow> Inl IndexError
           | i # _ \<Rightarrow> Inr (i + 2)))"

text \<open>\<^verbatim>\<open>updated_df.iloc[row_index].tolist()\<close>.\<close>

definition iloc :: "row list \<Rightarrow> nat \<Rightarrow> error + row" where
  "iloc rs i = (if i < length rs then Inr (rs ! i) else Inl IndexError)"

text \<open>\<^verbatim>\<open>new_row[-1] = v\<close>.\<close>

definition set_last :: "row \<Rightarrow> cell \<Rightarrow> error + row" where
  "set_last r v = (if r = [] then Inl IndexError else Inr (butlast r @ [v]))"

text \<open>Lines 105 to 110.\<close>

definition update_selected_task ::
  "env \<Rightarrow> remote \<Rightarrow> grid_response \<Rightarrow> nat \<Rightarrow> nat \<Rightarrow> worksheet \<Rightarrow> worksheet \<times> (error + outcome)" where
  "update_selected_task e rem g row_index rn ws =
     (case iloc (updated_df g) row_index of
        Inl err \<Rightarrow> (ws, Inl err)
      | Inr r \<Rightarrow>
          (case set_last r (Str (strftime_ymd (today e))) of
             Inl err \<Rightarrow> (ws, Inl err)
           | Inr new_row \<Rightarrow>
               (case delete_row (delete_ok rem) ws rn of
                  Inl err \<Rightarrow> (ws, Inl err)
                | Inr ws1 \<Rightarrow>
                    (case insert_row (insert_ok rem) ws1 new_row rn of
                       Inl err \<Rightarrow> (ws1, Inl err)
                     | Inr ws2 \<Rightarrow> (ws2, Inr (Rerun ''Task updated.''))))))"

text \<open>Lines 112 to 114.\<close>

definition delete_selected_task :: "remote \<Rightarrow> nat \<Rightarrow> worksheet \<Rightarrow> worksheet \<times> (error + outcome)" where
  "delete_selected_task rem rn ws =
     (case delete_row (delete_ok rem) ws rn of
        Inl err \<Rightarrow> (ws, Inl err)
      | Inr ws1 \<Rightarrow> (ws1, Inr (Rerun ''Task deleted.'')))"

text \<open>Lines 99 to 114: the actions on the selected row.\<close>

definition selected_row_actions ::
  "env \<Rightarrow> remote \<Rightarrow> ui \<Rightarrow> dataframe \<Rightarrow> dataframe \<Rightarrow> worksheet \<Rightarrow> worksheet \<times> (error + outcome)" where
  "selected_row_actions e rem u df fdf ws =
     (case selected_rows (grid u) of
        [] \<Rightarrow> (ws, Inr (Rendered fdf))
      | s # _ \<Rightarrow>
          (case row_number df (sel_task_name s) of
             Inl err \<Rightarrow> (ws, Inl err)
           | Inr rn \<Rightarrow>
               if update_clicked u then update_selected_task e rem (grid u) (nodeRowIndex s) rn ws
               else if delete_clicked u then delete_selected_task rem rn ws
               else (ws, Inr (Rendered fdf))))"

text \<open>Lines 27 to 114.\<close>

definition task_table_page :: "env \<Rightarrow> remote \<Rightarrow> ui \<Rightarrow> worksheet \<Rightarrow> worksheet \<times> (error + outcome)" where
  "task_table_page e rem u ws =
     (case load e rem ws of
        Inl err \<Rightarrow> (ws, Inl err)
      | Inr df \<Rightarrow>
          (case add_task_form u of
             Some f \<Rightarrow> add_task e rem f ws
           | None \<Rightarrow>
               (case col_index df ''Status'' of
                  Inl err \<Rightarrow> (ws, Inl err)
                | Inr st \<Rightarrow>
                    (case col_index df ''Category'' of
                       Inl err \<Rightarrow> (ws, Inl err)
                     | Inr ct \<Rightarrow>
                         selected_row_actions e rem u df
                           (filtered_df df st ct (filter1 u) (filter2 u)) ws))))"

text \<open>A session: the runs of the page one after the other, each on the sheet the last one left.\<close>

fun run :: "env \<Rightarrow> (remote \<times> ui) list \<Rightarrow> worksheet \<Rightarrow> worksheet" where
  "run e [] ws = ws"
| "run e ((rem, u) # later) ws = run e later (fst (task_table_page e rem u ws))"

subsection \<open>The remote table contract\<close>

text \<open>
  The sheet the program is written for: the header, once normalised, is the eleven names
  in schema order, and every data row has one cell per column.
\<close>

definition conforms :: "worksheet \<Rightarrow> bool" where
  "conforms ws =
     (map (title \<circ> strip) (header ws) = required_columns \<and>
      list_all (\<lambda>r. length r = length (header ws)) (rows ws))"

text \<open>What line 40 does to one row when the label resolves to column \<open>j\<close>.\<close>

definition coerce :: "env \<Rightarrow> nat \<Rightarrow> row \<Rightarrow> row" where
  "coerce e j r = r[j := to_datetime e (r ! j)]"

subsection \<open>Sample data\<close>

definition all_ok :: remote where
  "all_ok = \<lparr>read_ok = True, append_ok = True, delete_ok = True, insert_ok = True\<rparr>"

definition insert_fails :: remote where
  "insert_fails = \<lparr>read_ok = True, append_ok = True, delete_ok = True, insert_ok = False\<rparr>"

definition sample_parse :: "cell \<Rightarrow> cell" where
  "sample_parse c = (case c of Str s \<Rightarrow> (if ymd_format s then Timestamp 0 else NaT) | _ \<Rightarrow> NaT)"

definition sample_env :: env where
  "sample_env = \<lparr>today = \<lparr>year = 2026, month = 11, day = 3\<rparr>, to_datetime = sample_parse\<rparr>"

definition mk_task :: "string \<Rightarrow> string \<Rightarrow> string \<Rightarrow> row" where
  "mk_task name who st =
     [Str name, Str ''Stitching'', Num 1, Str who, Str st, Str ''Low'', Num 0, Str [], Str [],
      Str ''2024-01-01'', Str ''2024-01-01'']"

definition alice :: row where "alice = mk_task ''Alice'' ''Ann'' ''Working''"
definition bob :: row where "bob = mk_task ''Bob'' ''Bea'' ''Done''"
definition carol :: row where "carol = mk_task ''Carol'' ''Cat'' ''Stuck''"

definition scenario_ws :: worksheet where
  "scenario_ws = \<lparr>header = required_columns, rows = [alice, bob, carol]\<rparr>"

text \<open>Two records with the task name Hem.\<close>

definition hem_ann :: row where "hem_ann = mk_task ''Hem'' ''Ann'' ''Working''"
definition hem_bea :: row where "hem_bea = mk_task ''Hem'' ''Bea'' ''Done''"


text \<open>A sheet with one record, and one whose header lacks Timeline.\<close>

definition single_ws :: worksheet where
  "single_ws = \<lparr>header = required_columns, rows = [alice]\<rparr>"

definition no_timeline_ws :: worksheet where
  "no_timeline_ws =
     \<lparr>header = [''task name'', '' CATEGORY'', ''Quantity'', ''Seamstress'', ''status '',
                 ''Priority'', ''Cost'', ''Expected File Upload'', ''Delivered File Upload'',
                 ''Last Updated''],
      rows = [[Str ''Hem'', Str ''Stitching'', Num 1, Str ''Ann'', Str ''Done'', Str ''Low'',
               Num 0, Str [], Str [], Str ''2024-01-01'']]\<rparr>"

definition idle :: ui where
  "idle = \<lparr>add_task_form = None, filter1 = [], filter2 = [],
            grid = \<lparr>updated_df = [], selected_rows = []\<rparr>,
            update_clicked = False, delete_clicked = False\<rparr>"

definition select :: "nat \<Rightarrow> string \<Rightarrow> row list \<Rightarrow> ui \<Rightarrow> ui" where
  "select i name shown u =
     u\<lparr>grid := \<lparr>updated_df = shown,
                  selected_rows = [\<lparr>nodeRowIndex = i, sel_task_name = Str name\<rparr>]\<rparr>\<rparr>"

definition sample_form :: task_form where
  "sample_form =
     \<lparr>task = ''Hem'', category = ''Labelling'', qty = 3, seamstress = ''Cat'',
      status = ''Working'', priority = ''High'', cost = 5 / 2, exp_file = [], del_file = [],
      due = \<lparr>year = 2026, month = 12, day = 24\<rparr>\<rparr>"


section \<open>Properties\<close>

subsection \<open>Loading a sheet that meets the contract\<close>


lemma distinct_required_columns: "distinct required_columns"
  by (simp add: required_columns_def)


lemma conforms_distinct_header: "conforms ws \<Longrightarrow> distinct (header ws)"
  unfolding conforms_def using distinct_required_columns
  by (metis distinct_map)

lemma fold_max_same: "list_all (\<lambda>r. length r = n) rs \<Longrightarrow> fold max (map length rs) n = n"
  by (induction rs) auto

lemma conforms_width: "conforms ws \<Longrightarrow> sheet_width ws = length (header ws)"
  by (simp add: conforms_def sheet_width_def fold_max_same)

lemma zip_records:
  "list_all (\<lambda>r. length r = length ks) rs \<Longrightarrow>
   map (map snd) (map (\<lambda>r. zip ks (map readback (fill_gaps (length ks) r))) rs) =
     map (map readback) rs"
  by (induction rs) (auto simp: fill_gaps_def)

lemma get_all_records_conforms:
  "conforms ws \<Longrightarrow>
   get_all_records ws =
     Inr (map (\<lambda>r. zip (header ws) (map readback (fill_gaps (length (header ws)) r))) (rows ws))"
  by (simp add: get_all_records_def conforms_width conforms_distinct_header Let_def)

lemma DataFrame_conforms:
  assumes "conforms ws" "rows ws \<noteq> []"
  shows "DataFrame (map (\<lambda>r. zip (header ws) (map readback (fill_gaps (length (header ws)) r)))
                      (rows ws)) =
         \<lparr>columns = header ws, data = map (map readback) (rows ws)\<rparr>"
proof -
  from assms(2) obtain r rs where rr: "rows ws = r # rs" by (cases "rows ws") auto
  have all: "list_all (\<lambda>r. length r = length (header ws)) (rows ws)"
    using assms(1) by (simp add: conforms_def)
  then have "length r = length (header ws)" using rr by simp
  then have c: "map fst (zip (header ws) (map readback (fill_gaps (length (header ws)) r))) =
                header ws"
    by (simp add: fill_gaps_def)
  have d: "map (map snd) (map (\<lambda>r. zip (header ws) (map readback (fill_gaps (length (header ws)) r)))
                            (rows ws))
           = map (map readback) (rows ws)"
    using all by (rule zip_records)
  show ?thesis
    unfolding DataFrame_def d using c rr by simp
qed

lemma col_index_required:
  "col_index \<lparr>columns = required_columns, data = d\<rparr> ''Task Name'' = Inr 0"
  "col_index \<lparr>columns = required_columns, data = d\<rparr> ''Category'' = Inr 1"
  "col_index \<lparr>columns = required_columns, data = d\<rparr> ''Status'' = Inr 4"
  "col_index \<lparr>columns = required_columns, data = d\<rparr> ''Last Updated'' = Inr 10"
  by (simp_all add: col_index_def required_columns_def)

lemma missing_cols_required: "missing_cols \<lparr>columns = required_columns, data = d\<rparr> = []"
  by (simp add: missing_cols_def)

lemma missing_cols_none: "missing_cols \<lparr>columns = [], data = d\<rparr> = required_columns"
  by (simp add: missing_cols_def)

lemma load_conforms:
  assumes "conforms ws" "rows ws \<noteq> []" "read_ok rem"
  shows "load e rem ws =
           Inr \<lparr>columns = required_columns,
                data = map (coerce e 10) (map (map readback) (rows ws))\<rparr>"
proof -
  have n: "map (title \<circ> strip) (header ws) = required_columns"
    using assms(1) by (simp add: conforms_def)
  have g: "get_all_records ws =
           Inr (map (\<lambda>r. zip (header ws) (map readback (fill_gaps (length (header ws)) r)))
                  (rows ws))"
    using assms(1) by (rule get_all_records_conforms)
  have d: "DataFrame (map (\<lambda>r. zip (header ws) (map readback (fill_gaps (length (header ws)) r)))
                        (rows ws)) =
           \<lparr>columns = header ws, data = map (map readback) (rows ws)\<rparr>"
    using assms(1,2) by (rule DataFrame_conforms)
  have ce: "coerce e 10 = (\<lambda>r. r[10 := to_datetime e (r ! 10)])"
    by (rule ext) (simp add: coerce_def)
  show ?thesis
    unfolding ce using assms(3)
    by (simp add: load_def g d n Let_def missing_cols_required col_index_required
        del: o_apply map_map)
qed

lemma load_header_only:
  assumes "conforms ws" "rows ws = []" "read_ok rem"
  shows "load e rem ws = Inl (MissingColumns required_columns)"
proof -
  have g: "get_all_records ws = Inr []"
    using get_all_records_conforms [OF assms(1)] assms(2) by simp
  have r: "required_columns \<noteq> []" by (simp add: required_columns_def)
  show ?thesis
    using assms(3) r by (simp add: load_def g DataFrame_def Let_def missing_cols_none)
qed

subsection \<open>Filtering\<close>

lemma subseq_filtered: "subseq (data (filtered_df df st ct f1 f2)) (data df)"
proof -
  have a: "subseq [r \<leftarrow> data df. r ! st \<in> set f1] (data df)" by simp
  have b: "subseq [r \<leftarrow> [r \<leftarrow> data df. r ! st \<in> set f1]. r ! ct \<in> set f2] (data df)"
    using subseq_order.order_trans [OF subseq_filter_left a] .
  show ?thesis
    using a b by (simp add: filtered_df_def Let_def)
qed

lemma columns_filtered: "columns (filtered_df df st ct f1 f2) = columns df"
  by (simp add: filtered_df_def Let_def)

lemma actions_store_filter_free:
  "fst (selected_row_actions e rem u df fdf ws) = fst (selected_row_actions e rem u df fdf' ws)"
  "isl (snd (selected_row_actions e rem u df fdf ws)) = isl (snd (selected_row_actions e rem u df fdf' ws))"
  by (auto simp: selected_row_actions_def split: list.splits sum.splits)

lemma actions_idle:
  "\<not> update_clicked u \<Longrightarrow> \<not> delete_clicked u \<Longrightarrow> fst (selected_row_actions e rem u df fdf ws) = ws"
  by (auto simp: selected_row_actions_def split: list.splits sum.splits)

lemma add_task_rows:
  "fst (add_task e rem f ws) = ws \<or> fst (add_task e rem f ws) = ws\<lparr>rows := rows ws @ [form_row e f]\<rparr>"
  by (auto simp: add_task_def append_row_def)

text \<open>
  C10. An empty selection filters nothing: with both selections empty the filtered frame is
  the loaded frame. A non-empty status selection keeps the rows whose status is selected,
  whatever their category, a non-empty category selection keeps the rows whose category is
  selected, whatever their status, and two non-empty selections keep the rows passing both.
\<close>

theorem empty_filter_is_identity:
  "filtered_df df st ct [] [] = df \<and>
   (f1 \<noteq> [] \<longrightarrow> filtered_df df st ct f1 [] = df\<lparr>data := [r \<leftarrow> data df. r ! st \<in> set f1]\<rparr>) \<and>
   (f2 \<noteq> [] \<longrightarrow> filtered_df df st ct [] f2 = df\<lparr>data := [r \<leftarrow> data df. r ! ct \<in> set f2]\<rparr>) \<and>
   (f1 \<noteq> [] \<longrightarrow> f2 \<noteq> [] \<longrightarrow>
      filtered_df df st ct f1 f2 =
        df\<lparr>data := [r \<leftarrow> data df. r ! st \<in> set f1 \<and> r ! ct \<in> set f2]\<rparr>)"
  by (simp add: filtered_df_def Let_def conj_commute)

theorem empty_filter_is_identity_witness:
  "[Str ''Done''] \<noteq> [] \<and> [Str ''Stitching''] \<noteq> [] \<and>
   filtered_df \<lparr>columns = required_columns, data = [alice, bob, carol]\<rparr> 4 1 [] [] =
     \<lparr>columns = required_columns, data = [alice, bob, carol]\<rparr> \<and>
   filtered_df \<lparr>columns = required_columns, data = [alice, bob, carol]\<rparr> 4 1 [Str ''Done''] [] =
     \<lparr>columns = required_columns, data = [bob]\<rparr> \<and>
   filtered_df \<lparr>columns = required_columns, data = [alice, bob, carol]\<rparr> 4 1 [] [Str ''Stitching''] =
     \<lparr>columns = required_columns, data = [alice, bob, carol]\<rparr> \<and>
   filtered_df \<lparr>columns = required_columns, data = [alice, bob, carol]\<rparr> 4 1 [Str ''Done''] [Str ''Stitching''] =
     \<lparr>columns = required_columns, data = [bob]\<rparr>"
  using empty_filter_is_identity [of "\<lparr>columns = required_columns, data = [alice, bob, carol]\<rparr>" 4 1
      "[Str ''Done'']" "[Str ''Stitching'']"]
  by (simp add: alice_def bob_def carol_def mk_task_def)

text \<open>
  C8. The filtered view is a subsequence of the loaded rows with the same columns; a run
  in which nothing is submitted or clicked leaves the sheet as it was, whatever the filter
  selections; and the sheet a run leaves, as well as whether the run fails, does not
  depend on the filter selections: the row to write is resolved on the loaded frame.
\<close>

theorem filtered_view_is_subsequence:
  "subseq (data (filtered_df df st ct f1 f2)) (data df) \<and>
   columns (filtered_df df st ct f1 f2) = columns df \<and>
   (add_task_form u = None \<and> \<not> update_clicked u \<and> \<not> delete_clicked u \<longrightarrow>
      fst (task_table_page e rem u ws) = ws) \<and>
   fst (task_table_page e rem (u\<lparr>filter1 := a, filter2 := b\<rparr>) ws) = fst (task_table_page e rem u ws) \<and>
   isl (snd (task_table_page e rem (u\<lparr>filter1 := a, filter2 := b\<rparr>) ws)) =
     isl (snd (task_table_page e rem u ws))"
proof (intro conjI impI)
  show "subseq (data (filtered_df df st ct f1 f2)) (data df)" by (rule subseq_filtered)
  show "columns (filtered_df df st ct f1 f2) = columns df" by (rule columns_filtered)
next
  assume "add_task_form u = None \<and> \<not> update_clicked u \<and> \<not> delete_clicked u"
  then show "fst (task_table_page e rem u ws) = ws"
    by (auto simp: task_table_page_def actions_idle split: sum.splits)
next
  have sel: "selected_row_actions e rem (u\<lparr>filter1 := a, filter2 := b\<rparr>) df x ws =
             selected_row_actions e rem u df x ws" for df x
    by (simp add: selected_row_actions_def split: list.splits sum.splits)
  show "fst (task_table_page e rem (u\<lparr>filter1 := a, filter2 := b\<rparr>) ws) = fst (task_table_page e rem u ws)"
    using actions_store_filter_free(1)
    by (auto simp: task_table_page_def sel split: sum.splits option.splits)
  show "isl (snd (task_table_page e rem (u\<lparr>filter1 := a, filter2 := b\<rparr>) ws)) =
     isl (snd (task_table_page e rem u ws))"
    using actions_store_filter_free(2)
    by (auto simp: task_table_page_def sel split: sum.splits option.splits)
qed

theorem filtered_view_is_subsequence_witness:
  "add_task_form (idle\<lparr>filter1 := [Str ''Done'']\<rparr>) = None \<and>
   \<not> update_clicked (idle\<lparr>filter1 := [Str ''Done'']\<rparr>) \<and>
   \<not> delete_clicked (idle\<lparr>filter1 := [Str ''Done'']\<rparr>) \<and>
   fst (task_table_page sample_env all_ok (idle\<lparr>filter1 := [Str ''Done'']\<rparr>) scenario_ws) = scenario_ws \<and>
   subseq (data (filtered_df \<lparr>columns = required_columns, data = [alice, bob, carol]\<rparr> 4 1 [Str ''Done''] []))
     [alice, bob, carol]"
  using filtered_view_is_subsequence [where df = "\<lparr>columns = required_columns, data = [alice, bob, carol]\<rparr>"
      and st = 4 and ct = 1 and ?f1.0 = "[Str ''Done'']" and ?f2.0 = "[]"
      and u = "idle\<lparr>filter1 := [Str ''Done'']\<rparr>" and e = sample_env and rem = all_ok
      and ws = scenario_ws and a = "[]" and b = "[]"]
  by (simp add: idle_def)

subsection \<open>The schema check\<close>

lemma page_halts_on_load_error:
  "load e rem ws = Inl err \<Longrightarrow> task_table_page e rem u ws = (ws, Inl err)"
  by (simp add: task_table_page_def)

text \<open>
  C2. When the read succeeds and a required name is absent from the normalised column
  names, loading fails with the list of the absent required names, which is not empty, and
  the run of the page stops there with this error: the sheet is left as it was and nothing
  is rendered, whatever was submitted, selected or clicked.
\<close>

theorem load_fails_on_missing_column:
  assumes "read_ok rem" and "get_all_records ws = Inr recs"
    and "\<exists>c \<in> set required_columns. c \<notin> set (map (title \<circ> strip) (columns (DataFrame recs)))"
  shows "load e rem ws =
           Inl (MissingColumns [c \<leftarrow> required_columns.
                                  c \<notin> set (map (title \<circ> strip) (columns (DataFrame recs)))]) \<and>
         [c \<leftarrow> required_columns. c \<notin> set (map (title \<circ> strip) (columns (DataFrame recs)))] \<noteq> [] \<and>
         task_table_page e rem u ws =
           (ws, Inl (MissingColumns [c \<leftarrow> required_columns.
                                       c \<notin> set (map (title \<circ> strip) (columns (DataFrame recs)))]))"
proof -
  let ?m = "[c \<leftarrow> required_columns. c \<notin> set (map (title \<circ> strip) (columns (DataFrame recs)))]"
  have ne: "?m \<noteq> []"
    using assms(3) by (simp add: filter_empty_conv del: o_apply)
  have l: "load e rem ws = Inl (MissingColumns ?m)"
    using assms(1,2) ne by (simp add: load_def Let_def missing_cols_def del: o_apply)
  show ?thesis
    using ne l page_halts_on_load_error [OF l] by simp
qed

theorem load_fails_on_missing_column_witness:
  "read_ok all_ok \<and>
   (\<exists>recs. get_all_records no_timeline_ws = Inr recs \<and>
      (\<exists>c \<in> set required_columns. c \<notin> set (map (title \<circ> strip) (columns (DataFrame recs))))) \<and>
   load sample_env all_ok no_timeline_ws = Inl (MissingColumns [''Timeline'']) \<and>
   task_table_page sample_env all_ok (idle\<lparr>add_task_form := Some sample_form\<rparr>) no_timeline_ws =
     (no_timeline_ws, Inl (MissingColumns [''Timeline'']))"
proof -
  let ?recs = "map (\<lambda>r. zip (header no_timeline_ws) (fill_gaps 10 r)) (rows no_timeline_ws)"
  have r: "read_ok all_ok" by (simp add: all_ok_def)
  have g: "get_all_records no_timeline_ws = Inr ?recs"
    by code_simp
  have m: "\<exists>c \<in> set required_columns. c \<notin> set (map (title \<circ> strip) (columns (DataFrame ?recs)))"
    by code_simp
  have f: "[c \<leftarrow> required_columns. c \<notin> set (map (title \<circ> strip) (columns (DataFrame ?recs)))] = [''Timeline'']"
    by code_simp
  show ?thesis
    using load_fails_on_missing_column [OF r g m, of sample_env "idle\<lparr>add_task_form := Some sample_form\<rparr>"]
      r g m
    unfolding f by blast
qed

subsection \<open>The sample sheets\<close>

lemma conforms_scenario: "conforms scenario_ws"
  by code_simp

text \<open>The sample records read back as they are stored.\<close>

lemma readback_samples:
  "map readback alice = alice" "map readback bob = bob" "map readback carol = carol"
  "map readback hem_ann = hem_ann" "map readback hem_bea = hem_bea"
  by code_simp+


subsection \<open>Resolving the selected row\<close>










subsection \<open>The date stamp\<close>



subsection \<open>Update as delete followed by insert\<close>

lemma delete_row_ok:
  "2 \<le> rn \<Longrightarrow> delete_row True ws rn =
     Inr (ws\<lparr>rows := take (rn - 2) (rows ws) @ drop (rn - 1) (rows ws)\<rparr>)"
  by (simp add: delete_row_def)

lemma insert_after_delete:
  assumes "2 \<le> rn" "rn \<le> length (rows ws) + 1"
  shows "insert_row True (ws\<lparr>rows := take (rn - 2) (rows ws) @ drop (rn - 1) (rows ws)\<rparr>) r rn =
         Inr (ws\<lparr>rows := take (rn - 2) (rows ws) @ [r] @ drop (rn - 1) (rows ws)\<rparr>)"
proof -
  have l: "rn - 2 < length (rows ws)" using assms by arith
  then have m: "min (length (rows ws)) (rn - 2) = rn - 2" by simp
  show ?thesis
    using assms l by (simp add: insert_row_def m)
qed

lemma removed_row_gone:
  assumes "distinct xs" "i < length xs"
  shows "xs ! i \<notin> set (take i xs @ drop (Suc i) xs)"
proof -
  have "xs = take i xs @ xs ! i # drop (Suc i) xs"
    using assms(2) by (rule id_take_nth_drop)
  then have "distinct (take i xs @ xs ! i # drop (Suc i) xs)"
    using assms(1) by simp
  then show ?thesis by auto
qed

text \<open>
  C3. The update handler deletes the row at the resolved row number and then inserts the
  replacement row (the grid row with its last cell set to today's date) at the same row
  number. When both calls succeed the row is replaced in place. When the delete succeeds
  and the insert fails, the run ends with the remote error on the sheet the delete left:
  one row shorter, the old row not put back; if no other row equals it, it is nowhere in
  the sheet.
\<close>

theorem update_is_delete_then_insert:
  assumes "iloc (updated_df g) row_index = Inr r" and "r \<noteq> []"
    and "2 \<le> rn" and "rn \<le> length (rows ws) + 1" and "delete_ok rem"
  shows "delete_row True ws rn =
           Inr (ws\<lparr>rows := take (rn - 2) (rows ws) @ drop (rn - 1) (rows ws)\<rparr>) \<and>
         insert_row True (ws\<lparr>rows := take (rn - 2) (rows ws) @ drop (rn - 1) (rows ws)\<rparr>)
             (butlast r @ [Str (strftime_ymd (today e))]) rn =
           Inr (ws\<lparr>rows := take (rn - 2) (rows ws) @ [butlast r @ [Str (strftime_ymd (today e))]]
                              @ drop (rn - 1) (rows ws)\<rparr>) \<and>
         (insert_ok rem \<longrightarrow>
            update_selected_task e rem g row_index rn ws =
              (ws\<lparr>rows := take (rn - 2) (rows ws) @ [butlast r @ [Str (strftime_ymd (today e))]]
                              @ drop (rn - 1) (rows ws)\<rparr>, Inr (Rerun ''Task updated.''))) \<and>
         (\<not> insert_ok rem \<longrightarrow>
            update_selected_task e rem g row_index rn ws =
              (ws\<lparr>rows := take (rn - 2) (rows ws) @ drop (rn - 1) (rows ws)\<rparr>, Inl RemoteError) \<and>
            length (take (rn - 2) (rows ws) @ drop (rn - 1) (rows ws)) + 1 = length (rows ws) \<and>
            (distinct (rows ws) \<longrightarrow>
               rows ws ! (rn - 2) \<notin> set (take (rn - 2) (rows ws) @ drop (rn - 1) (rows ws))))"
proof -
  let ?new = "butlast r @ [Str (strftime_ymd (today e))]"
  let ?ws1 = "ws\<lparr>rows := take (rn - 2) (rows ws) @ drop (rn - 1) (rows ws)\<rparr>"
  have d: "delete_row True ws rn = Inr ?ws1"
    using assms(3) by (rule delete_row_ok)
  have i: "insert_row True ?ws1 ?new rn =
           Inr (ws\<lparr>rows := take (rn - 2) (rows ws) @ [?new] @ drop (rn - 1) (rows ws)\<rparr>)"
    using assms(3,4) by (rule insert_after_delete)
  have s: "set_last r (Str (strftime_ymd (today e))) = Inr ?new"
    using assms(2) by (simp add: set_last_def)
  have ok: "update_selected_task e rem g row_index rn ws =
              (ws\<lparr>rows := take (rn - 2) (rows ws) @ [?new] @ drop (rn - 1) (rows ws)\<rparr>,
               Inr (Rerun ''Task updated.''))" if "insert_ok rem"
    using that assms(1,5) s d i by (simp add: update_selected_task_def)
  have ko: "update_selected_task e rem g row_index rn ws = (?ws1, Inl RemoteError)"
    if "\<not> insert_ok rem"
    using that assms(1,5) s d by (simp add: update_selected_task_def insert_row_def)
  have lt: "rn - 2 < length (rows ws)" using assms(3,4) by arith
  have sc: "rn - 1 = Suc (rn - 2)" using assms(3) by arith
  have len: "length (take (rn - 2) (rows ws) @ drop (rn - 1) (rows ws)) + 1 = length (rows ws)"
    using lt sc by simp
  have gone: "rows ws ! (rn - 2) \<notin> set (take (rn - 2) (rows ws) @ drop (rn - 1) (rows ws))"
    if "distinct (rows ws)"
    unfolding sc using that lt by (rule removed_row_gone)
  show ?thesis
    using d i ok ko len gone by blast
qed

theorem update_is_delete_then_insert_witness:
  "iloc (updated_df \<lparr>updated_df = [bob], selected_rows = []\<rparr>) 0 = Inr bob \<and> bob \<noteq> [] \<and>
   (2::nat) \<le> 3 \<and> (3::nat) \<le> length (rows scenario_ws) + 1 \<and> delete_ok insert_fails \<and>
   \<not> insert_ok insert_fails \<and> distinct (rows scenario_ws) \<and>
   update_selected_task sample_env insert_fails \<lparr>updated_df = [bob], selected_rows = []\<rparr> 0 3 scenario_ws =
     (scenario_ws\<lparr>rows := [alice, carol]\<rparr>, Inl RemoteError) \<and>
   bob \<notin> set [alice, carol] \<and>
   task_table_page sample_env insert_fails
     (select 0 ''Bob'' [bob] (idle\<lparr>filter1 := [Str ''Done''], update_clicked := True\<rparr>)) scenario_ws =
     (scenario_ws\<lparr>rows := [alice, carol]\<rparr>, Inl RemoteError)"
proof -
  let ?g = "\<lparr>updated_df = [bob], selected_rows = []\<rparr>"
  have a: "iloc (updated_df ?g) 0 = Inr bob" by (simp add: iloc_def)
  have b: "bob \<noteq> []" by (simp add: bob_def mk_task_def)
  have c: "(2::nat) \<le> 3" by simp
  have d: "(3::nat) \<le> length (rows scenario_ws) + 1" by (simp add: scenario_ws_def)
  have f: "delete_ok insert_fails" by (simp add: insert_fails_def)
  have n: "\<not> insert_ok insert_fails" by (simp add: insert_fails_def)
  have ds: "distinct (rows scenario_ws)" by code_simp
  have rw: "take (3 - 2) (rows scenario_ws) @ drop (3 - 1) (rows scenario_ws) = [alice, carol]"
    by (simp add: scenario_ws_def)
  have at: "rows scenario_ws ! (3 - 2) = bob" by (simp add: scenario_ws_def)
  have pg: "task_table_page sample_env insert_fails
     (select 0 ''Bob'' [bob] (idle\<lparr>filter1 := [Str ''Done''], update_clicked := True\<rparr>)) scenario_ws =
     (scenario_ws\<lparr>rows := [alice, carol]\<rparr>, Inl RemoteError)"
    by code_simp
  show ?thesis
    using update_is_delete_then_insert [OF a b c d f, of sample_env] a b d f n ds pg
    unfolding rw at by simp
qed

subsection \<open>Adding a task\<close>















subsection \<open>The scenario of three records\<close>

lemma read_ok_all_ok: "read_ok all_ok \<and> append_ok all_ok \<and> delete_ok all_ok \<and> insert_ok all_ok"
  by (simp add: all_ok_def)

lemma load_scenario_any:
  "load e all_ok scenario_ws =
     Inr \<lparr>columns = required_columns, data = map (coerce e 10) [alice, bob, carol]\<rparr>"
  using load_conforms [OF conforms_scenario, of all_ok e]
  by (simp add: scenario_ws_def all_ok_def readback_samples)

lemma conforms_after_bob: "conforms (scenario_ws\<lparr>rows := [alice, carol]\<rparr>)"
  by code_simp

lemma load_after_bob:
  "load e all_ok (scenario_ws\<lparr>rows := [alice, carol]\<rparr>) =
     Inr \<lparr>columns = required_columns, data = map (coerce e 10) [alice, carol]\<rparr>"
  using load_conforms [OF conforms_after_bob, of all_ok e]
  by (simp add: all_ok_def readback_samples)

lemma coerce_cells:
  "coerce e 10 (mk_task name who st) ! 0 = Str name"
  "coerce e 10 (mk_task name who st) ! 1 = Str ''Stitching''"
  "coerce e 10 (mk_task name who st) ! 4 = Str st"
  by (simp_all add: coerce_def mk_task_def)

lemma scenario_filter_done:
  "filtered_df \<lparr>columns = required_columns, data = map (coerce e 10) [alice, bob, carol]\<rparr> 4 1
     [Str ''Done''] [] = \<lparr>columns = required_columns, data = [coerce e 10 bob]\<rparr>"
  by (simp add: filtered_df_def alice_def bob_def carol_def coerce_cells)

lemma scenario_row_number:
  "row_number \<lparr>columns = required_columns, data = map (coerce e 10) [alice, bob, carol]\<rparr>
     (Str ''Bob'') = Inr 3"
proof -
  have u: "[0..<3] = [0, 1, 2]" by (simp add: upt_rec)
  show ?thesis
    by (simp add: row_number_def col_index_required u alice_def bob_def carol_def coerce_cells)
qed

text \<open>
  C6. The sheet holds Alice (Working), Bob (Done) and Carol (Stuck). With the status
  selection Done the page shows exactly Bob's record. Bob is record 1 of the loaded
  sequence and resolves to row number 1 + 2 = 3; selecting him in the filtered view and
  clicking Delete leaves the sheet with Alice and Carol, and loading it gives their two
  records.
\<close>

theorem scenario_filter_and_delete:
  "load e all_ok scenario_ws =
     Inr \<lparr>columns = required_columns, data = map (coerce e 10) [alice, bob, carol]\<rparr> \<and>
   task_table_page e all_ok (idle\<lparr>filter1 := [Str ''Done'']\<rparr>) scenario_ws =
     (scenario_ws, Inr (Rendered \<lparr>columns = required_columns, data = [coerce e 10 bob]\<rparr>)) \<and>
   rows scenario_ws ! 1 = bob \<and>
   row_number \<lparr>columns = required_columns, data = map (coerce e 10) [alice, bob, carol]\<rparr>
     (Str ''Bob'') = Inr (1 + 2) \<and>
   task_table_page e all_ok
     (select 0 ''Bob'' [coerce e 10 bob] (idle\<lparr>filter1 := [Str ''Done''], delete_clicked := True\<rparr>))
     scenario_ws = (scenario_ws\<lparr>rows := [alice, carol]\<rparr>, Inr (Rerun ''Task deleted.'')) \<and>
   load e all_ok (scenario_ws\<lparr>rows := [alice, carol]\<rparr>) =
     Inr \<lparr>columns = required_columns, data = map (coerce e 10) [alice, carol]\<rparr>"
proof (intro conjI)
  show "load e all_ok scenario_ws =
     Inr \<lparr>columns = required_columns, data = map (coerce e 10) [alice, bob, carol]\<rparr>"
    by (rule load_scenario_any)
  show "task_table_page e all_ok (idle\<lparr>filter1 := [Str ''Done'']\<rparr>) scenario_ws =
     (scenario_ws, Inr (Rendered \<lparr>columns = required_columns, data = [coerce e 10 bob]\<rparr>))"
    using scenario_filter_done [of e]
    by (simp add: task_table_page_def load_scenario_any col_index_required idle_def
        selected_row_actions_def)
  show "rows scenario_ws ! 1 = bob" by (simp add: scenario_ws_def)
  show "row_number \<lparr>columns = required_columns, data = map (coerce e 10) [alice, bob, carol]\<rparr>
     (Str ''Bob'') = Inr (1 + 2)"
    using scenario_row_number [of e] by simp
  show "task_table_page e all_ok
     (select 0 ''Bob'' [coerce e 10 bob] (idle\<lparr>filter1 := [Str ''Done''], delete_clicked := True\<rparr>))
     scenario_ws = (scenario_ws\<lparr>rows := [alice, carol]\<rparr>, Inr (Rerun ''Task deleted.''))"
  proof -
    have d: "delete_selected_task all_ok 3 scenario_ws =
             (scenario_ws\<lparr>rows := [alice, carol]\<rparr>, Inr (Rerun ''Task deleted.''))"
      by (simp add: delete_selected_task_def delete_row_def all_ok_def scenario_ws_def)
    show ?thesis
      using scenario_row_number [of e] d
      by (simp add: task_table_page_def load_scenario_any col_index_required idle_def select_def
          selected_row_actions_def)
  qed
  show "load e all_ok (scenario_ws\<lparr>rows := [alice, carol]\<rparr>) =
     Inr \<lparr>columns = required_columns, data = map (coerce e 10) [alice, carol]\<rparr>"
    by (rule load_after_bob)
qed

subsection \<open>Deleting a task\<close>

lemma conforms_single: "conforms single_ws"
  by code_simp

lemma conforms_emptied: "conforms (single_ws\<lparr>rows := []\<rparr>)"
  by code_simp

lemma load_single:
  "load e all_ok single_ws = Inr \<lparr>columns = required_columns, data = [coerce e 10 alice]\<rparr>"
  using load_conforms [OF conforms_single, of all_ok e]
  by (simp add: single_ws_def all_ok_def readback_samples)

lemma single_row_number:
  "row_number \<lparr>columns = required_columns, data = [coerce e 10 alice]\<rparr> (Str ''Alice'') = Inr 2"
  by (simp add: row_number_def col_index_required alice_def coerce_cells)

lemma conforms_delete:
  assumes "conforms ws"
  shows "conforms (ws\<lparr>rows := take a (rows ws) @ drop b (rows ws)\<rparr>)"
proof -
  have "list_all (\<lambda>r. length r = length (header ws)) (rows ws)"
    using assms by (simp add: conforms_def)
  then have "list_all (\<lambda>r. length r = length (header ws)) (take a (rows ws) @ drop b (rows ws))"
    by (auto simp: list_all_iff dest: in_set_takeD in_set_dropD)
  then show ?thesis using assms by (simp add: conforms_def)
qed

text \<open>When a record remains, loading after a delete gives the loaded rows without the deleted one.\<close>

lemma delete_then_load:
  assumes "conforms ws" and "read_ok rem" and "delete_ok rem"
    and "2 \<le> rn" and "rn \<le> length (rows ws) + 1" and "2 \<le> length (rows ws)"
  shows "delete_selected_task rem rn ws =
           (ws\<lparr>rows := take (rn - 2) (rows ws) @ drop (rn - 1) (rows ws)\<rparr>,
            Inr (Rerun ''Task deleted.'')) \<and>
         load e rem (ws\<lparr>rows := take (rn - 2) (rows ws) @ drop (rn - 1) (rows ws)\<rparr>) =
           Inr \<lparr>columns = required_columns,
                data = take (rn - 2) (map (coerce e 10) (map (map readback) (rows ws))) @
                       drop (rn - 1) (map (coerce e 10) (map (map readback) (rows ws)))\<rparr>"
proof -
  let ?ws' = "ws\<lparr>rows := take (rn - 2) (rows ws) @ drop (rn - 1) (rows ws)\<rparr>"
  have d: "delete_selected_task rem rn ws = (?ws', Inr (Rerun ''Task deleted.''))"
    using assms(3,4) by (simp add: delete_selected_task_def delete_row_def)
  have c: "conforms ?ws'" using assms(1) by (rule conforms_delete)
  have "length (rows ?ws') + 1 = length (rows ws)" using assms(4,5) by simp
  then have ne: "rows ?ws' \<noteq> []" using assms(6) by auto
  have "load e rem ?ws' =
          Inr \<lparr>columns = required_columns,
               data = map (coerce e 10) (map (map readback) (rows ?ws'))\<rparr>"
    using c ne assms(2) by (rule load_conforms)
  then show ?thesis using d by (simp add: take_map drop_map)
qed

text \<open>
  C5. On the sheet with the single record Alice, selecting it and clicking Delete
  empties the sheet; loading the emptied sheet does not give the empty sequence but fails,
  reporting all eleven columns missing, and so does the next run of the page.
\<close>

theorem delete_last_record_then_load_fails:
  "task_table_page e all_ok (select 0 ''Alice'' [coerce e 10 alice] (idle\<lparr>delete_clicked := True\<rparr>))
     single_ws = (single_ws\<lparr>rows := []\<rparr>, Inr (Rerun ''Task deleted.'')) \<and>
   header (single_ws\<lparr>rows := []\<rparr>) = required_columns \<and>
   load e all_ok (single_ws\<lparr>rows := []\<rparr>) = Inl (MissingColumns required_columns) \<and>
   task_table_page e all_ok idle (single_ws\<lparr>rows := []\<rparr>) =
     (single_ws\<lparr>rows := []\<rparr>, Inl (MissingColumns required_columns))"
proof -
  have d: "delete_selected_task all_ok 2 single_ws =
           (single_ws\<lparr>rows := []\<rparr>, Inr (Rerun ''Task deleted.''))"
    by (simp add: delete_selected_task_def delete_row_def all_ok_def single_ws_def)
  have p: "task_table_page e all_ok
             (select 0 ''Alice'' [coerce e 10 alice] (idle\<lparr>delete_clicked := True\<rparr>)) single_ws =
           (single_ws\<lparr>rows := []\<rparr>, Inr (Rerun ''Task deleted.''))"
    using single_row_number [of e] d
    by (simp add: task_table_page_def load_single col_index_required idle_def select_def
        selected_row_actions_def)
  have l: "load e all_ok (single_ws\<lparr>rows := []\<rparr>) = Inl (MissingColumns required_columns)"
    using conforms_emptied by (rule load_header_only) (simp_all add: all_ok_def)
  have h: "header (single_ws\<lparr>rows := []\<rparr>) = required_columns" by (simp add: single_ws_def)
  show ?thesis
    using p h l page_halts_on_load_error [OF l] by simp
qed

subsection \<open>When the Last Updated cell is written\<close>

lemma subseq_take_drop:
  assumes "a \<le> b"
  shows "subseq (take a xs @ drop b xs) xs"
proof -
  have "drop b xs = drop (b - a) (drop a xs)" using assms by simp
  then have "suffix (drop b xs) (drop a xs)" by (metis suffix_drop)
  then have "subseq (drop b xs) (drop a xs)" by (rule suffix_imp_subseq)
  then have "subseq (take a xs @ drop b xs) (take a xs @ drop a xs)"
    by (intro list_emb_append_mono subseq_order.order_refl)
  then show ?thesis by simp
qed

lemma delete_selected_task_subseq:
  "subseq (rows (fst (delete_selected_task rem rn ws))) (rows ws) \<and>
   header (fst (delete_selected_task rem rn ws)) = header ws"
  by (simp add: delete_selected_task_def delete_row_def subseq_take_drop)

lemma actions_no_update_subseq:
  assumes "\<not> update_clicked u"
  shows "subseq (rows (fst (selected_row_actions e rem u df fdf ws))) (rows ws) \<and>
         header (fst (selected_row_actions e rem u df fdf ws)) = header ws"
  using assms delete_selected_task_subseq
  by (auto simp: selected_row_actions_def split: list.splits sum.splits)

lemma page_no_write_subseq:
  assumes "add_task_form u = None" "\<not> update_clicked u"
  shows "subseq (rows (fst (task_table_page e rem u ws))) (rows ws) \<and>
         header (fst (task_table_page e rem u ws)) = header ws"
  using assms actions_no_update_subseq
  by (auto simp: task_table_page_def split: sum.splits)

lemma run_no_write_subseq:
  "list_all (\<lambda>(rem, u). add_task_form u = None \<and> \<not> update_clicked u) steps \<Longrightarrow>
   subseq (rows (run e steps ws)) (rows ws) \<and> header (run e steps ws) = header ws"
proof (induction steps arbitrary: ws)
  case Nil
  then show ?case by simp
next
  case (Cons x later)
  obtain rem u where x: "x = (rem, u)" by (cases x)
  from Cons.prems x have h: "add_task_form u = None" "\<not> update_clicked u"
    and l: "list_all (\<lambda>(rem, u). add_task_form u = None \<and> \<not> update_clicked u) later"
    by simp_all
  let ?ws1 = "fst (task_table_page e rem u ws)"
  have s1: "subseq (rows ?ws1) (rows ws) \<and> header ?ws1 = header ws"
    using h by (rule page_no_write_subseq)
  have s2: "subseq (rows (run e later ?ws1)) (rows ?ws1) \<and> header (run e later ?ws1) = header ?ws1"
    using l by (rule Cons.IH)
  show ?case
    using s1 s2 x by (auto intro: subseq_order.order_trans)
qed

lemma update_rows:
  assumes "iloc (updated_df g) row_index = Inr r" and "r \<noteq> []"
    and "2 \<le> rn" and "rn \<le> length (rows ws) + 1" and "delete_ok rem" and "insert_ok rem"
  shows "rows (fst (update_selected_task e rem g row_index rn ws)) =
         (rows ws)[rn - 2 := butlast r @ [Str (strftime_ymd (today e))]]"
proof -
  let ?new = "butlast r @ [Str (strftime_ymd (today e))]"
  have d: "delete_row True ws rn = Inr (ws\<lparr>rows := take (rn - 2) (rows ws) @ drop (rn - 1) (rows ws)\<rparr>)"
    using assms(3) by (rule delete_row_ok)
  have i: "insert_row True (ws\<lparr>rows := take (rn - 2) (rows ws) @ drop (rn - 1) (rows ws)\<rparr>) ?new rn =
           Inr (ws\<lparr>rows := take (rn - 2) (rows ws) @ [?new] @ drop (rn - 1) (rows ws)\<rparr>)"
    using assms(3,4) by (rule insert_after_delete)
  have s: "set_last r (Str (strftime_ymd (today e))) = Inr ?new"
    using assms(2) by (simp add: set_last_def)
  have lt: "rn - 2 < length (rows ws)" using assms(3,4) by arith
  have sc: "rn - 1 = Suc (rn - 2)" using assms(3) by arith
  have "rows (fst (update_selected_task e rem g row_index rn ws)) =
        take (rn - 2) (rows ws) @ [?new] @ drop (rn - 1) (rows ws)"
    using assms(1,5,6) s d i by (simp add: update_selected_task_def)
  also have "\<dots> = (rows ws)[rn - 2 := ?new]"
    unfolding sc using lt by (simp add: upd_conv_take_nth_drop)
  finally show ?thesis .
qed

text \<open>
  C7. On a sheet that meets the contract the Last Updated label is column 10 of the loaded
  frame. The add handler appends a row whose cell 10 is today's date. The update handler,
  given a grid row of eleven cells, replaces the row at the resolved position by that row
  with cell 10 set to today's date, and leaves every other row as it was. The delete
  handler removes one row and leaves the others as they were; a run in which nothing is
  submitted or clicked leaves the sheet as it was. Over any session whose runs submit no
  form and click no Update (so only reads and deletes), the rows of the final sheet are a
  subsequence of the rows of the first, each one unchanged, under the same header.
\<close>

theorem last_updated_stamped_on_write_only:
  assumes "conforms ws"
  shows "(read_ok rem \<and> rows ws \<noteq> [] \<longrightarrow>
            (\<exists>df. load e rem ws = Inr df \<and> col_index df ''Last Updated'' = Inr 10)) \<and>
         (append_ok rem \<longrightarrow>
            rows (fst (add_task e rem f ws)) = rows ws @ [form_row e f] \<and>
            form_row e f ! 10 = Str (strftime_ymd (today e))) \<and>
         (delete_ok rem \<and> insert_ok rem \<and> iloc (updated_df g) row_index = Inr r \<and>
          length r = 11 \<and> 2 \<le> rn \<and> rn \<le> length (rows ws) + 1 \<longrightarrow>
            rows (fst (update_selected_task e rem g row_index rn ws)) =
              (rows ws)[rn - 2 := butlast r @ [Str (strftime_ymd (today e))]] \<and>
            (butlast r @ [Str (strftime_ymd (today e))]) ! 10 = Str (strftime_ymd (today e))) \<and>
         (delete_ok rem \<and> 2 \<le> rn \<longrightarrow>
            rows (fst (delete_selected_task rem rn ws)) =
              take (rn - 2) (rows ws) @ drop (rn - 1) (rows ws)) \<and>
         (add_task_form u = None \<and> \<not> update_clicked u \<and> \<not> delete_clicked u \<longrightarrow>
            fst (task_table_page e rem u ws) = ws) \<and>
         (list_all (\<lambda>(rem, u). add_task_form u = None \<and> \<not> update_clicked u) steps \<longrightarrow>
            subseq (rows (run e steps ws)) (rows ws) \<and> header (run e steps ws) = header ws)"
proof (intro conjI impI)
  assume "read_ok rem \<and> rows ws \<noteq> []"
  then have "load e rem ws =
               Inr \<lparr>columns = required_columns,
                    data = map (coerce e 10) (map (map readback) (rows ws))\<rparr>"
    using assms load_conforms by blast
  then show "\<exists>df. load e rem ws = Inr df \<and> col_index df ''Last Updated'' = Inr 10"
    using col_index_required(4) by blast
next
  assume "append_ok rem"
  then show "rows (fst (add_task e rem f ws)) = rows ws @ [form_row e f]"
    by (simp add: add_task_def append_row_def)
next
  show "form_row e f ! 10 = Str (strftime_ymd (today e))"
    by (simp add: form_row_def)
next
  assume h: "delete_ok rem \<and> insert_ok rem \<and> iloc (updated_df g) row_index = Inr r \<and>
          length r = 11 \<and> 2 \<le> rn \<and> rn \<le> length (rows ws) + 1"
  then have ne: "r \<noteq> []" by auto
  show "rows (fst (update_selected_task e rem g row_index rn ws)) =
              (rows ws)[rn - 2 := butlast r @ [Str (strftime_ymd (today e))]]"
    using h ne by (intro update_rows) simp_all
  have "length (butlast r) = 10" using h by simp
  then show "(butlast r @ [Str (strftime_ymd (today e))]) ! 10 = Str (strftime_ymd (today e))"
    by (metis nth_append_length)
next
  assume "delete_ok rem \<and> 2 \<le> rn"
  then show "rows (fst (delete_selected_task rem rn ws)) =
              take (rn - 2) (rows ws) @ drop (rn - 1) (rows ws)"
    by (simp add: delete_selected_task_def delete_row_def)
next
  assume "add_task_form u = None \<and> \<not> update_clicked u \<and> \<not> delete_clicked u"
  then show "fst (task_table_page e rem u ws) = ws"
    by (auto simp: task_table_page_def actions_idle split: sum.splits)
next
  assume l: "list_all (\<lambda>(rem, u). add_task_form u = None \<and> \<not> update_clicked u) steps"
  show "subseq (rows (run e steps ws)) (rows ws)"
    using run_no_write_subseq [OF l] by simp
  show "header (run e steps ws) = header ws"
    using run_no_write_subseq [OF l] by simp
qed


theorem last_updated_stamped_on_write_only_witness:
  "conforms scenario_ws \<and> read_ok all_ok \<and> rows scenario_ws \<noteq> [] \<and> append_ok all_ok \<and>
   delete_ok all_ok \<and> insert_ok all_ok \<and>
   iloc (updated_df \<lparr>updated_df = [bob], selected_rows = []\<rparr>) 0 = Inr bob \<and> length bob = 11 \<and>
   (2::nat) \<le> 3 \<and> (3::nat) \<le> length (rows scenario_ws) + 1 \<and>
   add_task_form idle = None \<and> \<not> update_clicked idle \<and> \<not> delete_clicked idle \<and>
   list_all (\<lambda>(rem, u). add_task_form u = None \<and> \<not> update_clicked u)
     [(all_ok, select 0 ''Bob'' [bob] (idle\<lparr>delete_clicked := True\<rparr>)), (all_ok, idle)] \<and>
   (\<exists>df. load sample_env all_ok scenario_ws = Inr df \<and> col_index df ''Last Updated'' = Inr 10) \<and>
   rows (fst (add_task sample_env all_ok sample_form scenario_ws)) =
     [alice, bob, carol, form_row sample_env sample_form] \<and>
   form_row sample_env sample_form ! 10 = Str ''2026-11-03'' \<and>
   rows (fst (update_selected_task sample_env all_ok \<lparr>updated_df = [bob], selected_rows = []\<rparr> 0 3
     scenario_ws)) = [alice, butlast bob @ [Str ''2026-11-03''], carol] \<and>
   rows (fst (delete_selected_task all_ok 3 scenario_ws)) = [alice, carol] \<and>
   fst (task_table_page sample_env all_ok idle scenario_ws) = scenario_ws \<and>
   subseq (rows (run sample_env
       [(all_ok, select 0 ''Bob'' [bob] (idle\<lparr>delete_clicked := True\<rparr>)), (all_ok, idle)] scenario_ws))
     [alice, bob, carol] \<and>
   run sample_env [(all_ok, select 0 ''Bob'' [bob] (idle\<lparr>delete_clicked := True\<rparr>)), (all_ok, idle)]
     scenario_ws = scenario_ws\<lparr>rows := [alice, carol]\<rparr>"
proof -
  let ?g = "\<lparr>updated_df = [bob], selected_rows = []\<rparr>"
  let ?steps = "[(all_ok, select 0 ''Bob'' [bob] (idle\<lparr>delete_clicked := True\<rparr>)), (all_ok, idle)]"
  have ok: "read_ok all_ok" "append_ok all_ok" "delete_ok all_ok" "insert_ok all_ok"
    by (simp_all add: all_ok_def)
  have rs: "rows scenario_ws = [alice, bob, carol]" by (simp add: scenario_ws_def)
  have il: "iloc (updated_df ?g) 0 = Inr bob" by (simp add: iloc_def)
  have lb: "length bob = 11" by (simp add: bob_def mk_task_def)
  have id: "add_task_form idle = None" "\<not> update_clicked idle" "\<not> delete_clicked idle"
    by (simp_all add: idle_def)
  have la: "list_all (\<lambda>(rem, u). add_task_form u = None \<and> \<not> update_clicked u) ?steps"
    by (simp add: idle_def select_def)
  have st: "strftime_ymd (today sample_env) = ''2026-11-03''" by code_simp
  have rn: "run sample_env ?steps scenario_ws = scenario_ws\<lparr>rows := [alice, carol]\<rparr>"
    by code_simp
  note t = last_updated_stamped_on_write_only [OF conforms_scenario, where rem = all_ok
      and e = sample_env and f = sample_form and g = ?g and row_index = 0 and r = bob and rn = 3
      and u = idle and steps = ?steps, unfolded rs st]
  have c1: "\<exists>df. load sample_env all_ok scenario_ws = Inr df \<and> col_index df ''Last Updated'' = Inr 10"
    using t ok by simp
  have c2: "rows (fst (add_task sample_env all_ok sample_form scenario_ws)) =
     [alice, bob, carol, form_row sample_env sample_form] \<and>
     form_row sample_env sample_form ! 10 = Str ''2026-11-03''"
    using t ok by simp
  have c3: "rows (fst (update_selected_task sample_env all_ok ?g 0 3 scenario_ws)) =
     [alice, butlast bob @ [Str ''2026-11-03''], carol]"
    using t ok il lb by simp
  have c4: "rows (fst (delete_selected_task all_ok 3 scenario_ws)) = [alice, carol]"
    using t ok by simp
  have c5: "fst (task_table_page sample_env all_ok idle scenario_ws) = scenario_ws"
    using t id by simp
  have c6: "subseq (rows (run sample_env ?steps scenario_ws)) [alice, bob, carol]"
    using t la by blast
  show ?thesis
    using conforms_scenario ok rs il lb id la c1 c2 c3 c4 c5 c6 rn by simp
qed

end
